theory Spec2Isabelle
  imports Main
begin

section \<open>Strings, exceptions and the library environment\<close>

text \<open>
  The program is \<^verbatim>\<open>scripts/resolve-musl-runtime.py\<close>. A Python \<^verbatim>\<open>str\<close> is a sequence of
  Unicode code points, so a string is modelled as a list of natural numbers; \<open>ascii\<close>
  turns a literal into its code points. Library functions the script calls
  (\<^verbatim>\<open>re\<close>, \<^verbatim>\<open>html.unescape\<close>, \<^verbatim>\<open>urllib.parse.urljoin\<close>) are modelled after CPython 3.11.
  Python integers are unbounded (the interpreter's optional limit on the number of
  digits \<^verbatim>\<open>int()\<close> accepts is taken as switched off).
\<close>

type_synonym ustr = "nat list"

definition ascii :: "string \<Rightarrow> ustr" where
  "ascii s = map of_char s"

text \<open>An exception that leaves a function: \<^verbatim>\<open>sys.exit(n)\<close> raises \<open>SystemExit n\<close>.\<close>

datatype exn = SystemExit int | ValueError

text \<open>
  The parts of the standard library that are data tables of the Unicode and HTML
  standards, too large to write out, are the fields of an environment:
  \<^verbatim>\<open>str.lower\<close>, the table \<^verbatim>\<open>html.entities.html5\<close>, whether
  \<^verbatim>\<open>urllib.parse._check_bracketed_host\<close> accepts a host (it calls \<^verbatim>\<open>ipaddress\<close>), and
  \<^verbatim>\<open>unicodedata.normalize('NFKC', _)\<close>.
\<close>

record pyenv =
  str_lower :: "ustr \<Rightarrow> ustr"
  html5 :: "ustr \<Rightarrow> ustr option"
  bracketed_host_ok :: "ustr \<Rightarrow> bool"
  nfkc :: "ustr \<Rightarrow> ustr"

text \<open>\<^verbatim>\<open>str.isspace\<close> of one code point; \<^verbatim>\<open>\s\<close> of \<^verbatim>\<open>re\<close> and \<^verbatim>\<open>str.strip()\<close> use the same set.\<close>

definition is_space :: "nat \<Rightarrow> bool" where
  "is_space c \<longleftrightarrow>
     (9 \<le> c \<and> c \<le> 13) \<or> (28 \<le> c \<and> c \<le> 32) \<or> c = 133 \<or> c = 160 \<or> c = 5760 \<or>
     (8192 \<le> c \<and> c \<le> 8202) \<or> c = 8232 \<or> c = 8233 \<or> c = 8239 \<or> c = 8287 \<or> c = 12288"

definition ascii_lower :: "nat \<Rightarrow> nat" where
  "ascii_lower c = (if 65 \<le> c \<and> c \<le> 90 then c + 32 else c)"

text \<open>\<^verbatim>\<open>sub in s\<close> for strings: \<open>sub\<close> occurs in \<open>s\<close> as a contiguous block.\<close>

fun contains :: "ustr \<Rightarrow> ustr \<Rightarrow> bool" where
  "contains sub [] = (sub = [])"
| "contains sub (c # cs) = (take (length sub) (c # cs) = sub \<or> contains sub cs)"

text \<open>\<^verbatim>\<open>s.strip()\<close>, \<^verbatim>\<open>s.lstrip(chars)\<close>, \<^verbatim>\<open>s.rstrip(chars)\<close> with the set of characters as a predicate.\<close>

definition lstrip :: "(nat \<Rightarrow> bool) \<Rightarrow> ustr \<Rightarrow> ustr" where
  "lstrip p s = dropWhile p s"

definition rstrip :: "(nat \<Rightarrow> bool) \<Rightarrow> ustr \<Rightarrow> ustr" where
  "rstrip p s = rev (dropWhile p (rev s))"

definition strip :: "(nat \<Rightarrow> bool) \<Rightarrow> ustr \<Rightarrow> ustr" where
  "strip p s = rstrip p (lstrip p s)"

section \<open>Regular expressions\<close>

text \<open>
  A backtracking matcher for the fragment of \<^verbatim>\<open>re\<close> the program uses: one character
  from a class, a class repeated between \<open>lo\<close> and \<open>hi\<close> times (greedy or lazy),
  sequence, alternation and a numbered capture group. \<open>run r (s, g)\<close> lists every way
  \<open>r\<close> matches a prefix of \<open>s\<close>, as the rest of the input and the groups captured, in
  the order in which backtracking tries them; the first one is the match \<^verbatim>\<open>re\<close> reports.
\<close>

datatype rx =
    Eps
  | Lit "nat \<Rightarrow> bool"
  | Rep "nat \<Rightarrow> bool" nat "nat option" bool
  | Seq rx rx
  | Alt rx rx
  | Grp nat rx

type_synonym caps = "nat \<Rightarrow> ustr option"

definition rep_cuts :: "(nat \<Rightarrow> bool) \<Rightarrow> nat \<Rightarrow> nat option \<Rightarrow> bool \<Rightarrow> ustr \<Rightarrow> ustr list" where
  "rep_cuts p lo hi greedy s =
     (let n = length (takeWhile p s);
          m = (case hi of None \<Rightarrow> n | Some h \<Rightarrow> min h n);
          ks = [lo ..< Suc m]
      in map (\<lambda>k. drop k s) (if greedy then rev ks else ks))"

fun run :: "rx \<Rightarrow> ustr \<times> caps \<Rightarrow> (ustr \<times> caps) list" where
  "run Eps st = [st]"
| "run (Lit p) (s, g) = (case s of [] \<Rightarrow> [] | c # cs \<Rightarrow> if p c then [(cs, g)] else [])"
| "run (Rep p lo hi greedy) (s, g) = map (\<lambda>r. (r, g)) (rep_cuts p lo hi greedy s)"
| "run (Seq a b) st = concat (map (run b) (run a st))"
| "run (Alt a b) st = run a st @ run b st"
| "run (Grp i a) (s, g) =
     map (\<lambda>(r, g'). (r, g'(i \<mapsto> take (length s - length r) s))) (run a (s, g))"

definition seqs :: "rx list \<Rightarrow> rx" where
  "seqs rs = foldr Seq rs Eps"

definition match_at :: "rx \<Rightarrow> ustr \<Rightarrow> (ustr \<times> caps) option" where
  "match_at r s = (case run r (s, Map.empty) of [] \<Rightarrow> None | m # _ \<Rightarrow> Some m)"

text \<open>\<^verbatim>\<open>m.group(i)\<close> as \<^verbatim>\<open>findall\<close> reports it: the empty string for a group that took no part.\<close>

definition grp :: "caps \<Rightarrow> nat \<Rightarrow> ustr" where
  "grp g i = (case g i of None \<Rightarrow> [] | Some t \<Rightarrow> t)"

text \<open>
  \<^verbatim>\<open>re.findall\<close> and \<^verbatim>\<open>re.sub\<close> scan from left to right: at each position the match
  is tried; after a match the scan goes on behind it, otherwise one character further.
  (None of the program's patterns matches the empty string; the branch for an empty
  match records it and moves one character on.)
\<close>

function findall :: "rx \<Rightarrow> ustr \<Rightarrow> caps list" where
  "findall r s =
     (case match_at r s of
        Some (rest, g) \<Rightarrow>
          (if length rest < length s then g # findall r rest
           else g # (case s of [] \<Rightarrow> [] | _ # cs \<Rightarrow> findall r cs))
      | None \<Rightarrow> (case s of [] \<Rightarrow> [] | _ # cs \<Rightarrow> findall r cs))"
  by pat_completeness auto
termination
  by (relation "measure (\<lambda>(r, s). length s)") auto

function sub :: "rx \<Rightarrow> (caps \<Rightarrow> ustr) \<Rightarrow> ustr \<Rightarrow> ustr" where
  "sub r f s =
     (case match_at r s of
        Some (rest, g) \<Rightarrow>
          (if length rest < length s then f g @ sub r f rest
           else f g @ (case s of [] \<Rightarrow> [] | c # cs \<Rightarrow> c # sub r f cs))
      | None \<Rightarrow> (case s of [] \<Rightarrow> [] | c # cs \<Rightarrow> c # sub r f cs))"
  by pat_completeness auto
termination
  by (relation "measure (\<lambda>(r, f, s). length s)") auto

text \<open>A literal character of a pattern, and one under \<^verbatim>\<open>re.IGNORECASE\<close>.\<close>

definition chr :: "char \<Rightarrow> rx" where
  "chr c = Lit (\<lambda>x. x = of_char c)"

definition chr_i :: "char \<Rightarrow> rx" where
  "chr_i c = Lit (\<lambda>x. ascii_lower x = of_char c)"

declare findall.simps [simp del]
declare sub.simps [simp del]

section \<open>\<^verbatim>\<open>html.unescape\<close>\<close>

text \<open>
  \<^verbatim>\<open>_charref = re.compile(r'&(#[0-9]+;?|#[xX][0-9a-fA-F]+;?|[^\t\n\f <&#;]{1,32};?)')\<close>
\<close>

definition is_digit :: "nat \<Rightarrow> bool" where
  "is_digit c \<longleftrightarrow> 48 \<le> c \<and> c \<le> 57"

definition is_hexdigit :: "nat \<Rightarrow> bool" where
  "is_hexdigit c \<longleftrightarrow> is_digit c \<or> (97 \<le> c \<and> c \<le> 102) \<or> (65 \<le> c \<and> c \<le> 70)"

definition is_name_char :: "nat \<Rightarrow> bool" where
  "is_name_char c \<longleftrightarrow> c \<notin> set (ascii [CHR 0x09, CHR 0x0A, CHR 0x0C, CHR '' '', CHR ''<'', CHR ''&'', CHR ''#'', CHR '';''])"

definition opt_semicolon :: rx where
  "opt_semicolon = Rep (\<lambda>c. c = of_char CHR '';'') 0 (Some 1) True"

definition charref_rx :: rx where
  "charref_rx =
     Seq (chr CHR ''&'')
       (Grp 1
         (Alt (seqs [chr CHR ''#'', Rep is_digit 1 None True, opt_semicolon])
         (Alt (seqs [chr CHR ''#'', Lit (\<lambda>c. c = of_char CHR ''x'' \<or> c = of_char CHR ''X''),
                     Rep is_hexdigit 1 None True, opt_semicolon])
              (seqs [Rep is_name_char 1 (Some 32) True, opt_semicolon]))))"

text \<open>\<^verbatim>\<open>int(s, base)\<close> on a string of digits of that base.\<close>

definition digit_val :: "nat \<Rightarrow> nat" where
  "digit_val c = (if is_digit c then c - 48 else if 97 \<le> c then c - 87 else c - 55)"

definition int_of :: "nat \<Rightarrow> ustr \<Rightarrow> nat" where
  "int_of base ds = foldl (\<lambda>acc d. acc * base + digit_val d) 0 ds"

definition invalid_charrefs :: "(nat \<times> nat) list" where
  "invalid_charrefs =
    [(0x00, 0xfffd), (0x0d, 0x0d), (0x80, 0x20ac), (0x81, 0x81), (0x82, 0x201a),
     (0x83, 0x0192), (0x84, 0x201e), (0x85, 0x2026), (0x86, 0x2020), (0x87, 0x2021),
     (0x88, 0x02c6), (0x89, 0x2030), (0x8a, 0x0160), (0x8b, 0x2039), (0x8c, 0x0152),
     (0x8d, 0x8d), (0x8e, 0x017d), (0x8f, 0x8f), (0x90, 0x90), (0x91, 0x2018),
     (0x92, 0x2019), (0x93, 0x201c), (0x94, 0x201d), (0x95, 0x2022), (0x96, 0x2013),
     (0x97, 0x2014), (0x98, 0x02dc), (0x99, 0x2122), (0x9a, 0x0161), (0x9b, 0x203a),
     (0x9c, 0x0153), (0x9d, 0x9d), (0x9e, 0x017e), (0x9f, 0x0178)]"

definition invalid_codepoints :: "nat \<Rightarrow> bool" where
  "invalid_codepoints n \<longleftrightarrow>
     (0x1 \<le> n \<and> n \<le> 0x8) \<or> (0xe \<le> n \<and> n \<le> 0x1f) \<or> (0x7f \<le> n \<and> n \<le> 0x9f) \<or>
     (0xfdd0 \<le> n \<and> n \<le> 0xfdef) \<or> n = 0xb \<or>
     (n \<le> 0x10ffff \<and> (n mod 0x10000 = 0xfffe \<or> n mod 0x10000 = 0xffff))"

definition named_charref :: "pyenv \<Rightarrow> ustr \<Rightarrow> ustr" where
  "named_charref E s =
     (case html5 E s of
        Some v \<Rightarrow> v
      | None \<Rightarrow>
          (case filter (\<lambda>x. html5 E (take x s) \<noteq> None) (rev [2 ..< length s]) of
             x # _ \<Rightarrow> (case html5 E (take x s) of Some v \<Rightarrow> v @ drop x s | None \<Rightarrow> [])
           | [] \<Rightarrow> of_char CHR ''&'' # s))"

definition replace_charref :: "pyenv \<Rightarrow> caps \<Rightarrow> ustr" where
  "replace_charref E m =
     (let s = grp m 1 in
      if take 1 s = ascii ''#'' then
        (let num = (if take 1 (drop 1 s) = ascii ''x'' \<or> take 1 (drop 1 s) = ascii ''X''
                    then int_of 16 (rstrip (\<lambda>c. c = of_char CHR '';'') (drop 2 s))
                    else int_of 10 (rstrip (\<lambda>c. c = of_char CHR '';'') (drop 1 s)))
         in case map_of invalid_charrefs num of
              Some c \<Rightarrow> [c]
            | None \<Rightarrow>
                if (0xD800 \<le> num \<and> num \<le> 0xDFFF) \<or> num > 0x10FFFF then [0xFFFD]
                else if invalid_codepoints num then []
                else [num])
      else named_charref E s)"

definition unescape :: "pyenv \<Rightarrow> ustr \<Rightarrow> ustr" where
  "unescape E s =
     (if of_char CHR ''&'' \<notin> set s then s else sub charref_rx (replace_charref E) s)"

section \<open>\<^verbatim>\<open>normalize_text\<close>\<close>

text \<open>The patterns \<^verbatim>\<open>r"<[^>]+>"\<close> and \<^verbatim>\<open>r"\s+"\<close>.\<close>

definition tag_rx :: rx where
  "tag_rx = seqs [chr CHR ''<'', Rep (\<lambda>c. c \<noteq> of_char CHR ''>'') 1 None True, chr CHR ''>'']"

definition spaces_rx :: rx where
  "spaces_rx = Rep is_space 1 None True"

definition normalize_text :: "pyenv \<Rightarrow> ustr \<Rightarrow> ustr" where
  "normalize_text E text =
     (let text = sub tag_rx (\<lambda>_. ascii '' '') text;
          text = unescape E text
      in str_lower E (strip is_space (sub spaces_rx (\<lambda>_. ascii '' '') text)))"

section \<open>Anchor extraction\<close>

text \<open>
  \<^verbatim>\<open>re.findall(r"<a\s+[^>]*href=\"([^\"]+)\"[^>]*>(.*?)</a>", html, flags=re.IGNORECASE | re.DOTALL)\<close>.
  Of the pattern's literal characters only \<open>a\<close>, \<open>h\<close>, \<open>r\<close>, \<open>e\<close>, \<open>f\<close> have case
  variants, and the only ones are their ASCII capitals.
\<close>

definition anchor_rx :: rx where
  "anchor_rx = seqs
     [chr_i CHR ''<'', chr_i CHR ''a'', Rep is_space 1 None True,
      Rep (\<lambda>c. c \<noteq> of_char CHR ''>'') 0 None True,
      chr_i CHR ''h'', chr_i CHR ''r'', chr_i CHR ''e'', chr_i CHR ''f'', chr_i CHR ''='',
      chr_i (CHR 0x22),
      Grp 1 (Rep (\<lambda>c. c \<noteq> of_char (CHR 0x22)) 1 None True),
      chr_i (CHR 0x22),
      Rep (\<lambda>c. c \<noteq> of_char CHR ''>'') 0 None True,
      chr_i CHR ''>'',
      Grp 2 (Rep (\<lambda>_. True) 0 None False),
      chr_i CHR ''<'', chr_i CHR ''/'', chr_i CHR ''a'', chr_i CHR ''>'']"

definition anchors :: "ustr \<Rightarrow> (ustr \<times> ustr) list" where
  "anchors html = map (\<lambda>m. (grp m 1, grp m 2)) (findall anchor_rx html)"

section \<open>\<^verbatim>\<open>urllib.parse.urljoin\<close>\<close>

definition uses_relative :: "ustr list" where
  "uses_relative = map ascii
     ['''', ''ftp'', ''http'', ''gopher'', ''nntp'', ''imap'', ''wais'', ''file'', ''https'',
      ''shttp'', ''mms'', ''prospero'', ''rtsp'', ''rtsps'', ''rtspu'', ''sftp'', ''svn'',
      ''svn+ssh'', ''ws'', ''wss'']"

definition uses_netloc :: "ustr list" where
  "uses_netloc = map ascii
     ['''', ''ftp'', ''http'', ''gopher'', ''nntp'', ''telnet'', ''imap'', ''wais'', ''file'',
      ''mms'', ''https'', ''shttp'', ''snews'', ''prospero'', ''rtsp'', ''rtsps'', ''rtspu'',
      ''rsync'', ''svn'', ''svn+ssh'', ''sftp'', ''nfs'', ''git'', ''git+ssh'', ''ws'', ''wss'']"

definition uses_params :: "ustr list" where
  "uses_params = map ascii
     ['''', ''ftp'', ''hdl'', ''prospero'', ''http'', ''imap'', ''https'', ''shttp'', ''rtsp'',
      ''rtsps'', ''rtspu'', ''sip'', ''sips'', ''mms'', ''sftp'', ''tel'']"

definition is_ascii_alpha :: "nat \<Rightarrow> bool" where
  "is_ascii_alpha c \<longleftrightarrow> (65 \<le> c \<and> c \<le> 90) \<or> (97 \<le> c \<and> c \<le> 122)"

definition scheme_chars :: "nat \<Rightarrow> bool" where
  "scheme_chars c \<longleftrightarrow> is_ascii_alpha c \<or> is_digit c \<or> c \<in> set (ascii ''+-.'')"

text \<open>\<^verbatim>\<open>_WHATWG_C0_CONTROL_OR_SPACE\<close> and \<^verbatim>\<open>_UNSAFE_URL_BYTES_TO_REMOVE\<close>.\<close>

definition c0_control_or_space :: "nat \<Rightarrow> bool" where
  "c0_control_or_space c \<longleftrightarrow> c \<le> 0x20"

definition unsafe_url_byte :: "nat \<Rightarrow> bool" where
  "unsafe_url_byte c \<longleftrightarrow> c = 0x09 \<or> c = 0x0D \<or> c = 0x0A"

text \<open>\<^verbatim>\<open>s.split(sep, 1)\<close> where \<open>sep\<close> occurs in \<open>s\<close>, \<^verbatim>\<open>s.split(sep)\<close> and \<^verbatim>\<open>sep.join(parts)\<close>.\<close>

definition split1 :: "nat \<Rightarrow> ustr \<Rightarrow> ustr \<times> ustr" where
  "split1 c s = (takeWhile (\<lambda>x. x \<noteq> c) s, drop 1 (dropWhile (\<lambda>x. x \<noteq> c) s))"

fun split_on :: "nat \<Rightarrow> ustr \<Rightarrow> ustr list" where
  "split_on c [] = [[]]"
| "split_on c (x # xs) =
     (if x = c then [] # split_on c xs
      else (case split_on c xs of p # ps \<Rightarrow> (x # p) # ps | [] \<Rightarrow> [[x]]))"

fun join :: "ustr \<Rightarrow> ustr list \<Rightarrow> ustr" where
  "join sep [] = []"
| "join sep [p] = p"
| "join sep (p # q # ps) = p @ sep @ join sep (q # ps)"

definition splitnetloc :: "ustr \<Rightarrow> ustr \<times> ustr" where
  "splitnetloc url =
     (let body = drop 2 url;
          netloc = takeWhile (\<lambda>c. c \<notin> set (ascii ''/?#'')) body
      in (netloc, drop (length netloc) body))"

definition checknetloc_ok :: "pyenv \<Rightarrow> ustr \<Rightarrow> bool" where
  "checknetloc_ok E netloc \<longleftrightarrow>
     netloc = [] \<or> list_all (\<lambda>c. c < 128) netloc \<or>
     (let n = filter (\<lambda>c. c \<notin> set (ascii ''@:#?'')) netloc;
          netloc2 = nfkc E n
      in n = netloc2 \<or> \<not> list_ex (\<lambda>c. c \<in> set netloc2) (ascii ''/?#@:''))"

definition bracketed_host :: "ustr \<Rightarrow> ustr" where
  "bracketed_host netloc =
     takeWhile (\<lambda>c. c \<noteq> of_char CHR '']'')
       (drop 1 (dropWhile (\<lambda>c. c \<noteq> of_char CHR ''['') netloc))"

definition urlsplit :: "pyenv \<Rightarrow> ustr \<Rightarrow> ustr \<Rightarrow> exn + (ustr \<times> ustr \<times> ustr \<times> ustr \<times> ustr)" where
  "urlsplit E url0 scheme0 =
     (let url = filter (\<lambda>c. \<not> unsafe_url_byte c) (lstrip c0_control_or_space url0);
          scheme = filter (\<lambda>c. \<not> unsafe_url_byte c) (strip c0_control_or_space scheme0);
          i = length (takeWhile (\<lambda>c. c \<noteq> of_char CHR '':'') url);
          (scheme, url) =
            (if i < length url \<and> 0 < i \<and> is_ascii_alpha (hd url) \<and> list_all scheme_chars (take i url)
             then (map ascii_lower (take i url), drop (Suc i) url)
             else (scheme, url));
          has_netloc = (take 2 url = ascii ''//'');
          (netloc, url) = (if has_netloc then splitnetloc url else ([], url));
          lb = of_char CHR ''['' \<in> set netloc;
          rb = of_char CHR '']'' \<in> set netloc
      in if has_netloc \<and> ((lb \<and> \<not> rb) \<or> (rb \<and> \<not> lb)) then Inl ValueError
         else if has_netloc \<and> lb \<and> rb \<and> \<not> bracketed_host_ok E (bracketed_host netloc)
         then Inl ValueError
         else
           (let (url, fragment) =
                  (if of_char CHR ''#'' \<in> set url then split1 (of_char CHR ''#'') url else (url, []));
                (url, query) =
                  (if of_char CHR ''?'' \<in> set url then split1 (of_char CHR ''?'') url else (url, []))
            in if checknetloc_ok E netloc then Inr (scheme, netloc, url, query, fragment)
               else Inl ValueError))"

definition splitparams :: "ustr \<Rightarrow> ustr \<times> ustr" where
  "splitparams url =
     (if of_char CHR ''/'' \<in> set url then
        (let j = length url - 1 - length (takeWhile (\<lambda>c. c \<noteq> of_char CHR ''/'') (rev url));
             i = j + length (takeWhile (\<lambda>c. c \<noteq> of_char CHR '';'') (drop j url))
         in if of_char CHR '';'' \<in> set (drop j url) then (take i url, drop (Suc i) url)
            else (url, []))
      else split1 (of_char CHR '';'') url)"

definition urlparse ::
  "pyenv \<Rightarrow> ustr \<Rightarrow> ustr \<Rightarrow> exn + (ustr \<times> ustr \<times> ustr \<times> ustr \<times> ustr \<times> ustr)" where
  "urlparse E url scheme =
     (case urlsplit E url scheme of
        Inl e \<Rightarrow> Inl e
      | Inr (scheme, netloc, url, query, fragment) \<Rightarrow>
          (let (url, params) =
                 (if scheme \<in> set uses_params \<and> of_char CHR '';'' \<in> set url then splitparams url
                  else (url, []))
           in Inr (scheme, netloc, url, params, query, fragment)))"

definition urlunsplit :: "ustr \<times> ustr \<times> ustr \<times> ustr \<times> ustr \<Rightarrow> ustr" where
  "urlunsplit comps =
     (case comps of (scheme, netloc, url, query, fragment) \<Rightarrow>
        (let url = (if netloc \<noteq> [] \<or> (scheme \<noteq> [] \<and> scheme \<in> set uses_netloc) \<or> take 2 url = ascii ''//''
                    then ascii ''//'' @ netloc @
                         (if url \<noteq> [] \<and> take 1 url \<noteq> ascii ''/'' then ascii ''/'' @ url else url)
                    else url);
             url = (if scheme \<noteq> [] then scheme @ ascii '':'' @ url else url);
             url = (if query \<noteq> [] then url @ ascii ''?'' @ query else url)
         in if fragment \<noteq> [] then url @ ascii ''#'' @ fragment else url))"

definition urlunparse :: "ustr \<times> ustr \<times> ustr \<times> ustr \<times> ustr \<times> ustr \<Rightarrow> ustr" where
  "urlunparse comps =
     (case comps of (scheme, netloc, url, params, query, fragment) \<Rightarrow>
        urlunsplit (scheme, netloc, (if params \<noteq> [] then url @ ascii '';'' @ params else url),
                    query, fragment))"

text \<open>The loop of \<^verbatim>\<open>urljoin\<close> over the path segments, \<open>acc\<close> being \<^verbatim>\<open>resolved_path\<close>.\<close>

fun resolve_path :: "ustr list \<Rightarrow> ustr list \<Rightarrow> ustr list" where
  "resolve_path acc [] = acc"
| "resolve_path acc (seg # segs) =
     (if seg = ascii ''..'' then resolve_path (butlast acc) segs
      else if seg = ascii ''.'' then resolve_path acc segs
      else resolve_path (acc @ [seg]) segs)"

text \<open>\<^verbatim>\<open>segments[1:-1] = filter(None, segments[1:-1])\<close>\<close>

definition drop_empty_inner :: "ustr list \<Rightarrow> ustr list" where
  "drop_empty_inner segs =
     (if length segs < 2 then segs
      else hd segs # filter (\<lambda>p. p \<noteq> []) (butlast (tl segs)) @ [last segs])"

definition urljoin :: "pyenv \<Rightarrow> ustr \<Rightarrow> ustr \<Rightarrow> exn + ustr" where
  "urljoin E base url =
     (if base = [] then Inr url
      else if url = [] then Inr base
      else
        case urlparse E base [] of
          Inl e \<Rightarrow> Inl e
        | Inr (bscheme, bnetloc, bpath, bparams, bquery, bfragment) \<Rightarrow>
        case urlparse E url bscheme of
          Inl e \<Rightarrow> Inl e
        | Inr (scheme, netloc, path, params, query, fragment) \<Rightarrow>
          if scheme \<noteq> bscheme \<or> scheme \<notin> set uses_relative then Inr url
          else if scheme \<in> set uses_netloc \<and> netloc \<noteq> []
          then Inr (urlunparse (scheme, netloc, path, params, query, fragment))
          else
            (let netloc = (if scheme \<in> set uses_netloc then bnetloc else netloc) in
             if path = [] \<and> params = []
             then Inr (urlunparse (scheme, netloc, bpath, bparams,
                                   (if query = [] then bquery else query), fragment))
             else
               (let base_parts = split_on (of_char CHR ''/'') bpath;
                    base_parts = (if last base_parts \<noteq> [] then butlast base_parts else base_parts);
                    segments =
                      (if take 1 path = ascii ''/'' then split_on (of_char CHR ''/'') path
                       else drop_empty_inner (base_parts @ split_on (of_char CHR ''/'') path));
                    resolved_path = resolve_path [] segments;
                    resolved_path =
                      (if last segments = ascii ''.'' \<or> last segments = ascii ''..''
                       then resolved_path @ [[]] else resolved_path);
                    joined = join (ascii ''/'') resolved_path
                in Inr (urlunparse (scheme, netloc, (if joined = [] then ascii ''/'' else joined),
                                    params, query, fragment)))))"

section \<open>\<^verbatim>\<open>resolve_musl_runtime_url\<close>\<close>

text \<open>
  The loop \<^verbatim>\<open>for href, inner in anchors\<close>: the first anchor whose haystack holds
  \<^verbatim>\<open>"runtime"\<close> and the needle ends it with the joined URL; running out of anchors
  reaches \<^verbatim>\<open>sys.exit(1)\<close>.
\<close>

definition haystack :: "pyenv \<Rightarrow> ustr \<times> ustr \<Rightarrow> ustr" where
  "haystack E a =
     (case a of (href, inner) \<Rightarrow>
        str_lower E (unescape E href @ ascii '' '' @ normalize_text E inner))"

definition qualifies :: "pyenv \<Rightarrow> ustr \<Rightarrow> ustr \<times> ustr \<Rightarrow> bool" where
  "qualifies E needle a \<longleftrightarrow>
     contains (ascii ''runtime'') (haystack E a) \<and> contains needle (haystack E a)"

fun scan_anchors :: "pyenv \<Rightarrow> ustr \<Rightarrow> ustr \<Rightarrow> (ustr \<times> ustr) list \<Rightarrow> exn + ustr" where
  "scan_anchors E home_url needle [] = Inl (SystemExit 1)"
| "scan_anchors E home_url needle ((href, inner) # rest) =
     (if qualifies E needle (href, inner) then urljoin E home_url (unescape E href)
      else scan_anchors E home_url needle rest)"

definition resolve_musl_runtime_url :: "pyenv \<Rightarrow> ustr \<Rightarrow> ustr \<Rightarrow> ustr \<Rightarrow> exn + ustr" where
  "resolve_musl_runtime_url E html home_url needle_arch =
     (let needle = str_lower E needle_arch
      in scan_anchors E home_url needle (anchors html))"

section \<open>The driver \<^verbatim>\<open>main\<close>\<close>

text \<open>
  What \<^verbatim>\<open>main\<close> reads: the values \<^verbatim>\<open>argparse\<close> gives the three options (\<open>None\<close> for an
  option that was not given), \<^verbatim>\<open>os.environ\<close>, whether standard input is a terminal and
  the text it holds. What the process leaves behind: the lines printed on standard
  output, what was written to standard error, and the exit status.
\<close>

record invocation =
  arg_html :: "ustr option"
  arg_home_url :: "ustr option"
  arg_needle_arch :: "ustr option"
  environ :: "ustr \<Rightarrow> ustr option"
  stdin_isatty :: bool
  stdin_text :: ustr

datatype diag = Usage ustr | Failure exn

record outcome =
  stdout :: "ustr list"
  stderr :: "diag list"
  exit_status :: int

text \<open>\<^verbatim>\<open>parser.error(message)\<close> prints the usage and the message to standard error and exits with status 2.\<close>

definition parser_error :: "ustr \<Rightarrow> outcome" where
  "parser_error message = \<lparr>stdout = [], stderr = [Usage message], exit_status = 2\<rparr>"

text \<open>Truth of an optional string, and \<^verbatim>\<open>a or b\<close> on two of them.\<close>

definition truthy :: "ustr option \<Rightarrow> bool" where
  "truthy v = (case v of None \<Rightarrow> False | Some s \<Rightarrow> s \<noteq> [])"

definition py_or :: "ustr option \<Rightarrow> ustr option \<Rightarrow> ustr option" where
  "py_or a b = (if truthy a then a else b)"

text \<open>
  The body of \<^verbatim>\<open>main\<close>, with the resolver it calls as a parameter. \<^verbatim>\<open>sys.exit(0)\<close> after
  the \<^verbatim>\<open>print\<close> and a \<^verbatim>\<open>SystemExit\<close> coming out of the resolver both pass through
  \<^verbatim>\<open>except SystemExit: raise\<close>; any other exception is reported and becomes status 1.
\<close>

definition main_with :: "(ustr \<Rightarrow> ustr \<Rightarrow> ustr \<Rightarrow> exn + ustr) \<Rightarrow> invocation \<Rightarrow> outcome" where
  "main_with resolver iv =
     (case (if truthy (arg_html iv) then arg_html iv
            else if environ iv (ascii ''HTML'') \<noteq> None then environ iv (ascii ''HTML'')
            else if \<not> stdin_isatty iv then Some (stdin_text iv)
            else None) of
        None \<Rightarrow> parser_error
          (ascii ''HTML content must be provided via --html, HTML environment variable, or stdin'')
      | Some html \<Rightarrow>
          (case py_or (arg_home_url iv) (environ iv (ascii ''HOME_URL'')) of
             None \<Rightarrow> parser_error
               (ascii ''HOME_URL must be provided via --home-url or HOME_URL environment variable'')
           | Some home_url \<Rightarrow>
               if home_url = [] then parser_error
                 (ascii ''HOME_URL must be provided via --home-url or HOME_URL environment variable'')
               else
                 (case py_or (arg_needle_arch iv) (environ iv (ascii ''NEEDLE_ARCH'')) of
                    None \<Rightarrow> parser_error
                      (ascii ''NEEDLE_ARCH must be provided via --needle-arch or NEEDLE_ARCH environment variable'')
                  | Some needle_arch \<Rightarrow>
                      if needle_arch = [] then parser_error
                        (ascii ''NEEDLE_ARCH must be provided via --needle-arch or NEEDLE_ARCH environment variable'')
                      else
                        (case resolver html home_url needle_arch of
                           Inr url \<Rightarrow> \<lparr>stdout = [url], stderr = [], exit_status = 0\<rparr>
                         | Inl (SystemExit code) \<Rightarrow> \<lparr>stdout = [], stderr = [], exit_status = code\<rparr>
                         | Inl ValueError \<Rightarrow>
                             \<lparr>stdout = [], stderr = [Failure ValueError], exit_status = 1\<rparr>))))"

definition main :: "pyenv \<Rightarrow> invocation \<Rightarrow> outcome" where
  "main E iv = main_with (resolve_musl_runtime_url E) iv"

section \<open>An environment for closed examples\<close>

text \<open>
  On strings of ASCII characters \<^verbatim>\<open>str.lower\<close> lowers the letters \<open>A\<close> to \<open>Z\<close>, and
  NFKC normalisation changes nothing. The entity table is cut down to the entries of
  \<^verbatim>\<open>html.entities.html5\<close> for \<open>amp\<close>, \<open>lt\<close>, \<open>gt\<close> and \<open>quot\<close>, and no bracketed host is
  accepted: the examples below use no other named reference and no bracketed host.
\<close>

definition basic_env :: pyenv where
  "basic_env =
     \<lparr>str_lower = map ascii_lower,
      html5 = map_of
        [(ascii ''amp;'', ascii ''&''), (ascii ''amp'', ascii ''&''),
         (ascii ''lt;'', ascii ''<''), (ascii ''lt'', ascii ''<''),
         (ascii ''gt;'', ascii ''>''), (ascii ''gt'', ascii ''>''),
         (ascii ''quot;'', [0x22]), (ascii ''quot'', [0x22])],
      bracketed_host_ok = (\<lambda>_. False),
      nfkc = (\<lambda>s. s)\<rparr>"

section \<open>Text in normal form\<close>

text \<open>
  A string is single-spaced when it neither starts nor ends with white space and
  every white space in it is one U+0020 between two other characters: the shape
  \<^verbatim>\<open>re.sub(r"\s+", " ", text).strip()\<close> leaves.
\<close>

fun single_spaced :: "ustr \<Rightarrow> bool" where
  "single_spaced [] = True"
| "single_spaced [c] = (\<not> is_space c)"
| "single_spaced (c # d # cs) =
     (\<not> is_space c \<and>
      (if is_space d then d = 0x20 \<and> cs \<noteq> [] \<and> single_spaced cs else single_spaced (d # cs)))"

section \<open>Example pages\<close>


definition page2 :: ustr where
  "page2 = ascii ''<a href=\"/dl/runtime-aarch64.tar.gz\">ARM64 Runtime</a>''"

text \<open>
  A page whose only anchor carries a \<open>data-href\<close> attribute, a page with an href in
  capitals, a page whose anchor text holds a character reference, and two calls of
  the driver: one without a base URL, one whose architecture no anchor names.
\<close>

definition page3 :: ustr where
  "page3 = ascii ''<a data-href=\"/dl/runtime-x64.tgz\">musl</a>''"



definition usage_call :: invocation where
  "usage_call =
     \<lparr>arg_html = Some page2, arg_home_url = None, arg_needle_arch = Some (ascii ''aarch64''),
      environ = Map.empty, stdin_isatty = True, stdin_text = []\<rparr>"


section \<open>Evaluation on concrete inputs\<close>

lemmas rx_eval =
  findall.simps sub.simps match_at_def seqs_def chr_def chr_i_def rep_cuts_def grp_def
  ascii_def ascii_lower_def is_space_def

lemmas text_eval =
  qualifies_def haystack_def normalize_text_def unescape_def tag_rx_def spaces_rx_def
  strip_def lstrip_def rstrip_def

lemmas url_eval =
  urljoin_def urlparse_def urlsplit_def urlunparse_def urlunsplit_def splitnetloc_def
  splitparams_def checknetloc_ok_def split1_def drop_empty_inner_def bracketed_host_def
  uses_params_def uses_netloc_def uses_relative_def c0_control_or_space_def
  unsafe_url_byte_def is_ascii_alpha_def scheme_chars_def is_digit_def Let_def
  lstrip_def strip_def rstrip_def








section \<open>The scan over the anchors\<close>










section \<open>The driver's usage errors\<close>

lemma main_with_usage:
  assumes "html = None \<or> home \<in> {None, Some []} \<or> needle \<in> {None, Some []}"
    and "html = (if truthy (arg_html iv) then arg_html iv
            else if environ iv (ascii ''HTML'') \<noteq> None then environ iv (ascii ''HTML'')
            else if \<not> stdin_isatty iv then Some (stdin_text iv)
            else None)"
    and "home = py_or (arg_home_url iv) (environ iv (ascii ''HOME_URL''))"
    and "needle = py_or (arg_needle_arch iv) (environ iv (ascii ''NEEDLE_ARCH''))"
  shows "\<exists>message. \<forall>resolver. main_with resolver iv = parser_error message"
proof (cases html)
  case None
  then show ?thesis using assms(2) by (simp add: main_with_def) blast
next
  case (Some h)
  note h = this
  show ?thesis
  proof (cases "home \<in> {None, Some []}")
    case True
    then show ?thesis using h assms(2,3)
      by (auto simp add: main_with_def simp del: truthy_def)
  next
    case False
    then obtain u where u: "home = Some u" "u \<noteq> []" by (cases home) auto
    with assms(1) h have "needle \<in> {None, Some []}" by simp
    then show ?thesis using h u assms(2,3,4)
      by (auto simp add: main_with_def)
  qed
qed

text \<open>
  C8. When a required input is missing after the fallbacks (the HTML: no non-empty
  \<^verbatim>\<open>--html\<close>, no \<^verbatim>\<open>HTML\<close> variable and standard input is a terminal; the base URL
  or the architecture: neither a non-empty option nor a non-empty environment
  variable), the driver stops in \<^verbatim>\<open>parser.error\<close>: a usage message on standard
  error, exit status 2, nothing on standard output, and the same outcome whatever
  the resolver would do, since it is not called.
\<close>

theorem missing_input_is_usage_error:
  assumes "(arg_html iv \<in> {None, Some []} \<and> environ iv (ascii ''HTML'') = None \<and> stdin_isatty iv) \<or>
           (arg_home_url iv \<in> {None, Some []} \<and> environ iv (ascii ''HOME_URL'') \<in> {None, Some []}) \<or>
           (arg_needle_arch iv \<in> {None, Some []} \<and>
              environ iv (ascii ''NEEDLE_ARCH'') \<in> {None, Some []})"
  shows "stdout (main E iv) = [] \<and> exit_status (main E iv) = 2 \<and>
         (\<exists>message. stderr (main E iv) = [Usage message]) \<and>
         (\<forall>resolver. main_with resolver iv = main E iv)"
proof -
  have "(if truthy (arg_html iv) then arg_html iv
            else if environ iv (ascii ''HTML'') \<noteq> None then environ iv (ascii ''HTML'')
            else if \<not> stdin_isatty iv then Some (stdin_text iv)
            else None) = None \<or>
        py_or (arg_home_url iv) (environ iv (ascii ''HOME_URL'')) \<in> {None, Some []} \<or>
        py_or (arg_needle_arch iv) (environ iv (ascii ''NEEDLE_ARCH'')) \<in> {None, Some []}"
    using assms by (auto simp: truthy_def py_or_def)
  from main_with_usage [OF this refl refl refl]
  obtain message where m: "\<And>resolver. main_with resolver iv = parser_error message" by blast
  show ?thesis by (simp add: main_def m parser_error_def)
qed

theorem missing_input_is_usage_error_witness:
  "stdout (main basic_env usage_call) = [] \<and> exit_status (main basic_env usage_call) = 2"
  using missing_input_is_usage_error [of usage_call basic_env]
  by (simp add: usage_call_def)

section \<open>Attributes whose name ends in href\<close>

lemma anchors_page3: "anchors page3 = [(ascii ''/dl/runtime-x64.tgz'', ascii ''musl'')]"
  by (simp add: page3_def anchors_def anchor_rx_def rx_eval)

lemma page3_attrs:
  "\<not> contains (ascii '' href='') page3" "contains (ascii '' data-href='') page3"
  by (simp_all add: page3_def ascii_def)

lemma page3_qualifying:
  "qualifies basic_env (ascii ''x64'') (ascii ''/dl/runtime-x64.tgz'', ascii ''musl'')"
  by (simp add: text_eval rx_eval basic_env_def)

lemma page3_url:
  "urljoin basic_env (ascii ''https://example.org/'') (ascii ''/dl/runtime-x64.tgz'') =
     Inr (ascii ''https://example.org/dl/runtime-x64.tgz'')"
  by (simp add: url_eval rx_eval basic_env_def)

lemma unescape_plain: "of_char CHR ''&'' \<notin> set s \<Longrightarrow> unescape E s = s"
  by (simp add: unescape_def)

lemma lower_x64: "str_lower basic_env (ascii ''x64'') = ascii ''x64''"
  by (simp add: basic_env_def ascii_def ascii_lower_def)

text \<open>
  C10. There is a page whose opening anchor tag has no \<open>href\<close> attribute but a
  \<open>data-href\<close> attribute: the extractor takes this attribute's value as the href, and
  the resolver returns the URL joined from it.
\<close>

theorem data_href_taken_as_href:
  "\<not> contains (ascii '' href='') page3 \<and>
   contains (ascii '' data-href='') page3 \<and>
   anchors page3 = [(ascii ''/dl/runtime-x64.tgz'', ascii ''musl'')] \<and>
   resolve_musl_runtime_url basic_env page3 (ascii ''https://example.org/'') (ascii ''x64'') =
     Inr (ascii ''https://example.org/dl/runtime-x64.tgz'')"
proof -
  have "unescape basic_env (ascii ''/dl/runtime-x64.tgz'') = ascii ''/dl/runtime-x64.tgz''"
    by (rule unescape_plain) (simp add: ascii_def)
  then show ?thesis
    using page3_attrs page3_qualifying page3_url
    by (simp add: resolve_musl_runtime_url_def anchors_page3 lower_x64)
qed

section \<open>Matching on the haystack\<close>



lemma contains_append_right: "contains pat b \<Longrightarrow> contains pat (a @ b)"
  by (induction a) simp_all











section \<open>Who ends the process when nothing is found\<close>





end
